theory Spec2Isabelle
  imports Complex_Main "HOL-Library.Sublist"
begin

section \<open>JavaScript values\<close>

text \<open>
  The service is TypeScript. Requests and provider responses are typed by the
  interfaces of the module and of the SDK; the value bound by \<^verbatim>\<open>catch (error: any)\<close>
  is not, so it is modelled as a JavaScript value: undefined, null, a boolean, a number,
  a string, an array or a plain object with its own data properties. Functions, symbols,
  BigInts, accessors and objects that override \<^verbatim>\<open>toString\<close> are outside the model.
\<close>

datatype number = Finite real | NaN | PosInfinity | NegInfinity

datatype jsval =
    JUndefined
  | JNull
  | JBool bool
  | JNum number
  | JStr string
  | JArr "jsval list"
  | JObj "(string \<times> jsval) list"

text \<open>What \<^verbatim>\<open>if (v)\<close>, \<^verbatim>\<open>!v\<close> and \<^verbatim>\<open>v && w\<close> test.\<close>

fun truthy :: "jsval \<Rightarrow> bool" where
  "truthy JUndefined = False"
| "truthy JNull = False"
| "truthy (JBool b) = b"
| "truthy (JNum (Finite r)) = (r \<noteq> 0)"
| "truthy (JNum NaN) = False"
| "truthy (JNum PosInfinity) = True"
| "truthy (JNum NegInfinity) = True"
| "truthy (JStr s) = (s \<noteq> [])"
| "truthy (JArr xs) = True"
| "truthy (JObj kvs) = True"

text \<open>
  Optional chaining \<^verbatim>\<open>v?.k\<close>: undefined on null and undefined, the property otherwise.
  The service reads only the keys \<^verbatim>\<open>error\<close>, \<^verbatim>\<open>code\<close> and \<^verbatim>\<open>message\<close>, which no boolean, number,
  string or array has.
\<close>

fun optProp :: "jsval \<Rightarrow> string \<Rightarrow> jsval" where
  "optProp (JObj kvs) k = (case map_of kvs k of Some v \<Rightarrow> v | None \<Rightarrow> JUndefined)"
| "optProp v k = JUndefined"

text \<open>\<^verbatim>\<open>String.prototype.includes\<close>: the argument occurs as a contiguous substring.\<close>

fun String_includes :: "string \<Rightarrow> string \<Rightarrow> bool" where
  "String_includes [] sub = (sub = [])"
| "String_includes (c # s) sub = (prefix sub (c # s) \<or> String_includes s sub)"

datatype js_error = Error string | TypeError | SyntaxError

text \<open>
  The method call \<^verbatim>\<open>v.includes(sub)\<close> on a value already known to be truthy: strings and
  arrays have the method, every other value of the model has not, and calling
  undefined raises a TypeError.
\<close>

fun call_includes :: "jsval \<Rightarrow> string \<Rightarrow> js_error + bool" where
  "call_includes (JStr s) sub = Inr (String_includes s sub)"
| "call_includes (JArr xs) sub = Inr (JStr sub \<in> set xs)"
| "call_includes v sub = Inl TypeError"

fun join :: "string \<Rightarrow> string list \<Rightarrow> string" where
  "join sep [] = []"
| "join sep [x] = x"
| "join sep (x # y # ys) = x @ sep @ join sep (y # ys)"

text \<open>
  The conversion a template literal \<^verbatim>\<open>`${v}`\<close> applies, which can itself raise. A plain
  object is rendered by \<^verbatim>\<open>Object.prototype.toString\<close> unless it has an own property
  \<^verbatim>\<open>toString\<close>: that property is data here, so it cannot be called, \<^verbatim>\<open>valueOf\<close> gives no
  primitive either, and the conversion raises a TypeError. An array is joined with commas,
  null and undefined elements rendered empty, and raises when an element does. The
  digits of a number are the runtime's business (floating point), so the formatter is a
  parameter.
\<close>

fun ToString :: "(number \<Rightarrow> string) \<Rightarrow> jsval \<Rightarrow> js_error + string"
  and ToString_elements :: "(number \<Rightarrow> string) \<Rightarrow> jsval list \<Rightarrow> js_error + string list" where
  "ToString Number_toString JUndefined = Inr ''undefined''"
| "ToString Number_toString JNull = Inr ''null''"
| "ToString Number_toString (JBool b) = Inr (if b then ''true'' else ''false'')"
| "ToString Number_toString (JNum n) = Inr (Number_toString n)"
| "ToString Number_toString (JStr s) = Inr s"
| "ToString Number_toString (JArr xs) =
     (case ToString_elements Number_toString xs of
        Inl raised \<Rightarrow> Inl raised
      | Inr rendered \<Rightarrow> Inr (join '','' rendered))"
| "ToString Number_toString (JObj kvs) =
     (if map_of kvs ''toString'' = None then Inr ''[object Object]'' else Inl TypeError)"
| "ToString_elements Number_toString [] = Inr []"
| "ToString_elements Number_toString (x # xs) =
     (case (if x = JUndefined \<or> x = JNull then Inr [] else ToString Number_toString x) of
        Inl raised \<Rightarrow> Inl raised
      | Inr first \<Rightarrow>
          (case ToString_elements Number_toString xs of
             Inl raised \<Rightarrow> Inl raised
           | Inr rest \<Rightarrow> Inr (first # rest)))"

text \<open>
  What \<^verbatim>\<open>throw new Error(`lead${v}`)\<close> raises: the error of the conversion when it
  fails, the new Error otherwise.
\<close>

definition throw_new_Error :: "string \<Rightarrow> js_error + string \<Rightarrow> js_error" where
  "throw_new_Error lead rendered =
     (case rendered of Inl raised \<Rightarrow> raised | Inr m \<Rightarrow> Error (lead @ m))"

section \<open>Requests, payloads and responses\<close>

record GenerationRequest =
  prompt :: string
  referenceImages :: "string list option"
  temperature :: "number option"
  seed :: "number option"

record EditRequest =
  instruction :: string
  originalImage :: string
  referenceImages :: "string list option"
  maskImage :: "string option"
  temperature :: "number option"
  seed :: "number option"

record SegmentationRequest =
  image :: string
  query :: string

text \<open>
  An element of the content list: \<^verbatim>\<open>{ text: t }\<close> or
  \<^verbatim>\<open>{ inlineData: { mimeType: m, data: d } }\<close>.
\<close>

datatype content_element = Text string | InlineData string string

record GenerateContentParameters =
  model :: string
  contents :: "content_element list"

text \<open>The SDK's response type, every field optional as the SDK declares it.\<close>

record Blob =
  blob_mimeType :: "string option"
  blob_data :: "string option"

record Part =
  part_text :: "string option"
  inlineData :: "Blob option"

record Content =
  parts :: "Part list option"

record Candidate =
  content :: "Content option"

record GenerateContentResponse =
  candidates :: "Candidate list option"

text \<open>
  The remote call \<^verbatim>\<open>await genAI.models.generateContent(params)\<close>: it throws a value
  (\<open>Inl\<close>) or resolves to a response (\<open>Inr\<close>).
\<close>

type_synonym provider = "GenerateContentParameters \<Rightarrow> jsval + GenerateContentResponse"

section \<open>generateImage\<close>

text \<open>Lines 31 to 43: the prompt, then one pushed element per reference image.\<close>

definition push_reference_images :: "string list option \<Rightarrow> content_element list \<Rightarrow> content_element list" where
  "push_reference_images refs elems =
     (case refs of
        None \<Rightarrow> elems
      | Some images \<Rightarrow>
          if length images > 0
          then foldl (\<lambda>acc img. acc @ [InlineData ''image/png'' img]) elems images
          else elems)"

definition generateImage_contents :: "GenerationRequest \<Rightarrow> content_element list" where
  "generateImage_contents request =
     push_reference_images (GenerationRequest.referenceImages request) [Text (prompt request)]"

definition generateImage_params :: "GenerationRequest \<Rightarrow> GenerateContentParameters" where
  "generateImage_params request =
     \<lparr>model = ''gemini-2.5-flash-image-preview'', contents = generateImage_contents request\<rparr>"

text \<open>
  Lines 50 to 60 (and 127 to 137): \<^verbatim>\<open>response.candidates?.[0]?.content?.parts\<close>, then the
  loop that pushes \<^verbatim>\<open>part.inlineData.data\<close> when \<^verbatim>\<open>part.inlineData?.data\<close> is truthy.
\<close>

definition first_element :: "'a list \<Rightarrow> 'a option" where
  "first_element xs = (case xs of [] \<Rightarrow> None | x # _ \<Rightarrow> Some x)"

definition response_parts :: "GenerateContentResponse \<Rightarrow> Part list option" where
  "response_parts response =
     Option.bind (Option.bind (Option.bind (candidates response) first_element) content) parts"

definition push_image :: "string list \<Rightarrow> Part \<Rightarrow> string list" where
  "push_image images part =
     (case Option.bind (inlineData part) blob_data of
        Some d \<Rightarrow> if d \<noteq> [] then images @ [d] else images
      | None \<Rightarrow> images)"

definition collect_images :: "GenerateContentResponse \<Rightarrow> string list" where
  "collect_images response =
     (case response_parts response of
        Some ps \<Rightarrow> foldl push_image [] ps
      | None \<Rightarrow> [])"

text \<open>
  Lines 61 to 86, the catch block. The first three disjuncts are compared before
  \<^verbatim>\<open>error.error.message.includes('quota')\<close> is called, and that call can itself raise, as
  can each template literal.
\<close>

definition generateImage_catch :: "(number \<Rightarrow> string) \<Rightarrow> jsval \<Rightarrow> js_error" where
  "generateImage_catch Number_toString error =
     (if optProp (optProp error ''error'') ''code'' = JNum (Finite 429) \<or>
         optProp (optProp (optProp error ''error'') ''error'') ''code'' = JNum (Finite 429) \<or>
         optProp error ''code'' = JNum (Finite 429)
      then Error ''Rate limit exceeded. Please wait a few minutes before trying again, or upgrade your Google AI Studio plan for higher quotas.''
      else
        case (if truthy (optProp (optProp error ''error'') ''message'')
              then call_includes (optProp (optProp error ''error'') ''message'') ''quota''
              else Inr False) of
          Inl raised \<Rightarrow> raised
        | Inr quota \<Rightarrow>
            if quota
            then Error ''Rate limit exceeded. Please wait a few minutes before trying again, or upgrade your Google AI Studio plan for higher quotas.''
            else if truthy (optProp (optProp error ''error'') ''message'')
            then throw_new_Error ''API Error: ''
                   (ToString Number_toString (optProp (optProp error ''error'') ''message''))
            else if truthy (optProp (optProp (optProp error ''error'') ''error'') ''message'')
            then throw_new_Error ''API Error: ''
                   (ToString Number_toString (optProp (optProp (optProp error ''error'') ''error'') ''message''))
            else if truthy (optProp error ''message'')
            then throw_new_Error ''Error: '' (ToString Number_toString (optProp error ''message''))
            else Error ''Failed to generate image. Please try again.'')"

text \<open>
  Lines 29 to 87. Requests and responses being typed, no statement of the try block but
  the remote call can raise, so the catch block binds what the remote call threw.
\<close>

definition generateImage :: "provider \<Rightarrow> (number \<Rightarrow> string) \<Rightarrow> GenerationRequest \<Rightarrow> js_error + string list" where
  "generateImage generateContent Number_toString request =
     (case generateContent (generateImage_params request) of
        Inl error \<Rightarrow> Inl (generateImage_catch Number_toString error)
      | Inr response \<Rightarrow> Inr (collect_images response))"

section \<open>editImage\<close>

text \<open>What \<^verbatim>\<open>if (request.maskImage)\<close> tests on an optional string: supplied and not empty.\<close>

definition truthy_string :: "string option \<Rightarrow> bool" where
  "truthy_string s = (case s of None \<Rightarrow> False | Some t \<Rightarrow> t \<noteq> [])"

text \<open>Lines 186 to 196: the pieces of the template of \<^verbatim>\<open>buildEditPrompt\<close>, in order.\<close>

definition edit_prompt_head :: string where
  "edit_prompt_head = ''Edit this image according to the following instruction: ''"

definition edit_prompt_body :: string where
  "edit_prompt_body = ''\<newline>\<newline>Maintain the original image's lighting, perspective, and overall composition. Make the changes look natural and seamlessly integrated.''"

definition mask_clause :: string where
  "mask_clause = ''\<newline>\<newline>IMPORTANT: Apply changes ONLY where the mask image shows white pixels (value 255). Leave all other areas completely unchanged. Respect the mask boundaries precisely and maintain seamless blending at the edges.''"

definition edit_prompt_tail :: string where
  "edit_prompt_tail = ''\<newline>\<newline>Preserve image quality and ensure the edit looks professional and realistic.''"

definition buildEditPrompt :: "EditRequest \<Rightarrow> string" where
  "buildEditPrompt request =
     (let maskInstruction = (if truthy_string (maskImage request) then mask_clause else [])
      in edit_prompt_head @ instruction request @ edit_prompt_body @ maskInstruction @ edit_prompt_tail)"

text \<open>Lines 91 to 120.\<close>

definition push_mask :: "string option \<Rightarrow> content_element list \<Rightarrow> content_element list" where
  "push_mask maskImg elems =
     (case maskImg of
        None \<Rightarrow> elems
      | Some m \<Rightarrow> if m \<noteq> [] then elems @ [InlineData ''image/png'' m] else elems)"

definition editImage_contents :: "EditRequest \<Rightarrow> content_element list" where
  "editImage_contents request =
     push_mask (maskImage request)
       (push_reference_images (referenceImages request)
          [Text (buildEditPrompt request), InlineData ''image/png'' (originalImage request)])"

definition editImage_params :: "EditRequest \<Rightarrow> GenerateContentParameters" where
  "editImage_params request =
     \<lparr>model = ''gemini-2.5-flash-image-preview'', contents = editImage_contents request\<rparr>"

text \<open>Lines 138 to 141: the catch block ignores what it caught.\<close>

definition editImage :: "provider \<Rightarrow> EditRequest \<Rightarrow> js_error + string list" where
  "editImage generateContent request =
     (case generateContent (editImage_params request) of
        Inl error \<Rightarrow> Inl (Error ''Failed to edit image. Please try again.'')
      | Inr response \<Rightarrow> Inr (collect_images response))"

section \<open>segmentImage\<close>

definition segment_prompt_head :: string where
  "segment_prompt_head = ''Analyze this image and create a segmentation mask for: ''"

definition segment_prompt_tail :: string where
  \<open>segment_prompt_tail = ''\<newline>\<newline>Return a JSON object with this exact structure:\<newline>{\<newline>  "masks": [\<newline>    {\<newline>      "label": "description of the segmented object",\<newline>      "box_2d": [x, y, width, height],\<newline>      "mask": "base64-encoded binary mask image"\<newline>    }\<newline>  ]\<newline>}\<newline>\<newline>Only segment the specific object or region requested. The mask should be a binary PNG where white pixels (255) indicate the selected region and black pixels (0) indicate the background.''\<close>

definition segmentImage_params :: "SegmentationRequest \<Rightarrow> GenerateContentParameters" where
  "segmentImage_params request =
     \<lparr>model = ''gemini-2.5-flash-image-preview'',
      contents = [Text (segment_prompt_head @ query request @ segment_prompt_tail),
                  InlineData ''image/png'' (image request)]\<rparr>"

text \<open>Line 175: \<^verbatim>\<open>response.candidates?.[0]?.content?.parts?.[0]?.text\<close>.\<close>

definition responseText :: "GenerateContentResponse \<Rightarrow> string option" where
  "responseText response = Option.bind (Option.bind (response_parts response) first_element) part_text"

text \<open>
  What a catch clause can bind: a value the remote call threw, or an error raised by the
  try block's own statements.
\<close>

datatype caught = Thrown jsval | Raised js_error

text \<open>
  Lines 146 to 179, the try block: \<^verbatim>\<open>!responseText\<close> holds of an undefined text and of
  the empty one. \<^verbatim>\<open>JSON.parse\<close> belongs to the runtime and is a parameter: \<open>None\<close> is its
  SyntaxError, \<open>Some v\<close> the value it builds.
\<close>

definition segmentImage_try :: "provider \<Rightarrow> (string \<Rightarrow> 'j option) \<Rightarrow> SegmentationRequest \<Rightarrow> caught + 'j" where
  "segmentImage_try generateContent JSON_parse request =
     (case generateContent (segmentImage_params request) of
        Inl error \<Rightarrow> Inl (Thrown error)
      | Inr response \<Rightarrow>
          (case responseText response of
             None \<Rightarrow> Inl (Raised (Error ''No response text received from API''))
           | Some t \<Rightarrow>
               if t = []
               then Inl (Raised (Error ''No response text received from API''))
               else (case JSON_parse t of
                       None \<Rightarrow> Inl (Raised SyntaxError)
                     | Some v \<Rightarrow> Inr v)))"

text \<open>Lines 180 to 183: whatever the try block raised, the same fixed error leaves.\<close>

definition segmentImage :: "provider \<Rightarrow> (string \<Rightarrow> 'j option) \<Rightarrow> SegmentationRequest \<Rightarrow> js_error + 'j" where
  "segmentImage generateContent JSON_parse request =
     (case segmentImage_try generateContent JSON_parse request of
        Inl error \<Rightarrow> Inl (Error ''Failed to segment image. Please try again.'')
      | Inr v \<Rightarrow> Inr v)"

section \<open>The vocabulary of the specification\<close>

text \<open>
  The specification names error kinds; the service raises \<^verbatim>\<open>Error\<close> objects that differ
  in their message only. Each kind below is the error the service constructs for it.
\<close>

definition RateLimitExceeded :: js_error where
  "RateLimitExceeded = Error ''Rate limit exceeded. Please wait a few minutes before trying again, or upgrade your Google AI Studio plan for higher quotas.''"

definition ApiError :: "string \<Rightarrow> js_error" where
  "ApiError m = Error (''API Error: '' @ m)"

definition GenericError :: "string \<Rightarrow> js_error" where
  "GenericError m = Error (''Error: '' @ m)"

definition UnknownError :: js_error where
  "UnknownError = Error ''Failed to generate image. Please try again.''"

definition NoResponseText :: js_error where
  "NoResponseText = Error ''No response text received from API''"

text \<open>
  The specification's reading of a response: the content parts of the first candidate
  (none when a level is missing), the inline image data a part carries (an empty payload
  carries none), and the data of the parts that carry some, in part order.
\<close>

definition first_candidate_parts :: "GenerateContentResponse \<Rightarrow> Part list" where
  "first_candidate_parts response =
     (case candidates response of
        None \<Rightarrow> []
      | Some [] \<Rightarrow> []
      | Some (c # cs) \<Rightarrow>
          (case content c of
             None \<Rightarrow> []
           | Some ct \<Rightarrow> (case parts ct of None \<Rightarrow> [] | Some ps \<Rightarrow> ps)))"

definition image_data :: "Part \<Rightarrow> string option" where
  "image_data part =
     (case inlineData part of
        None \<Rightarrow> None
      | Some b \<Rightarrow> (case blob_data b of None \<Rightarrow> None | Some d \<Rightarrow> if d = [] then None else Some d))"

definition inline_image_data :: "GenerateContentResponse \<Rightarrow> string list" where
  "inline_image_data response = List.map_filter image_data (first_candidate_parts response)"

text \<open>The first text part: the first of those parts that carries a text which is not empty.\<close>

definition first_text_part :: "GenerateContentResponse \<Rightarrow> string option" where
  "first_text_part response =
     Option.bind (List.find (\<lambda>p. truthy_string (part_text p)) (first_candidate_parts response)) part_text"

text \<open>The reference images of a request as the sequence of 0 to n payloads the data model gives.\<close>

definition reference_list :: "string list option \<Rightarrow> string list" where
  "reference_list refs = (case refs of None \<Rightarrow> [] | Some images \<Rightarrow> images)"

text \<open>
  The rate-limit case in the specification's words: code 429 at one of the three known
  places, or a message text at \<^verbatim>\<open>error.error.message\<close> that contains \<^verbatim>\<open>quota\<close>.
\<close>

definition carries_429 :: "jsval \<Rightarrow> bool" where
  "carries_429 error =
     (optProp (optProp error ''error'') ''code'' = JNum (Finite 429) \<or>
      optProp (optProp (optProp error ''error'') ''error'') ''code'' = JNum (Finite 429) \<or>
      optProp error ''code'' = JNum (Finite 429))"

fun text_includes :: "jsval \<Rightarrow> string \<Rightarrow> bool" where
  "text_includes (JStr m) sub = String_includes m sub"
| "text_includes v sub = False"

definition rate_limit_case :: "jsval \<Rightarrow> bool" where
  "rate_limit_case error =
     (carries_429 error \<or> text_includes (optProp (optProp error ''error'') ''message'') ''quota'')"

text \<open>The values that have a method \<^verbatim>\<open>includes\<close>.\<close>

fun has_includes :: "jsval \<Rightarrow> bool" where
  "has_includes (JStr m) = True"
| "has_includes (JArr xs) = True"
| "has_includes v = False"

text \<open>A message slot holds a text, or nothing the service takes for a message.\<close>

fun text_or_absent :: "jsval \<Rightarrow> bool" where
  "text_or_absent (JStr m) = True"
| "text_or_absent v = (\<not> truthy v)"

text \<open>
  A message is present in a slot that holds a text which is not empty. The nested provider
  message is looked for at \<^verbatim>\<open>error.error.message\<close> first and at
  \<^verbatim>\<open>error.error.error.message\<close> second, the generic message at \<^verbatim>\<open>error.message\<close>.
\<close>

fun message_text :: "jsval \<Rightarrow> string option" where
  "message_text (JStr m) = (if m = [] then None else Some m)"
| "message_text v = None"

definition nested_provider_message :: "jsval \<Rightarrow> string option" where
  "nested_provider_message error =
     (case message_text (optProp (optProp error ''error'') ''message'') of
        Some m \<Rightarrow> Some m
      | None \<Rightarrow> message_text (optProp (optProp (optProp error ''error'') ''error'') ''message''))"

definition generic_message :: "jsval \<Rightarrow> string option" where
  "generic_message error = message_text (optProp error ''message'')"

section \<open>Example requests, responses and providers\<close>

definition provider_returning :: "GenerateContentResponse \<Rightarrow> provider" where
  "provider_returning response params = Inr response"

definition provider_throwing :: "jsval \<Rightarrow> provider" where
  "provider_throwing error params = Inl error"

definition text_part :: "string \<Rightarrow> Part" where
  "text_part t = \<lparr>part_text = Some t, inlineData = None\<rparr>"

definition image_part :: "string \<Rightarrow> Part" where
  "image_part d = \<lparr>part_text = None, inlineData = Some \<lparr>blob_mimeType = Some ''image/png'', blob_data = Some d\<rparr>\<rparr>"

definition response_with_parts :: "Part list \<Rightarrow> GenerateContentResponse" where
  "response_with_parts ps = \<lparr>candidates = Some [\<lparr>content = Some \<lparr>parts = Some ps\<rparr>\<rparr>]\<rparr>"

definition sunset_request :: GenerationRequest where
  "sunset_request =
     \<lparr>prompt = ''a sunset'', GenerationRequest.referenceImages = Some [''QUJD'', ''REVG''],
      GenerationRequest.temperature = None, GenerationRequest.seed = None\<rparr>"

definition sky_request :: EditRequest where
  "sky_request =
     \<lparr>instruction = ''make the sky blue'', originalImage = ''T1JJRw=='',
      referenceImages = Some [''QUJD''], maskImage = Some ''TUFTSw=='',
      temperature = None, seed = None\<rparr>"

definition quoting_request :: EditRequest where
  "quoting_request =
     \<lparr>instruction = ''repeat this: '' @ mask_clause, originalImage = ''T1JJRw=='',
      referenceImages = None, maskImage = None, temperature = None, seed = None\<rparr>"

definition three_part_response :: GenerateContentResponse where
  "three_part_response = response_with_parts [text_part ''Here you go'', image_part ''QUJD'', image_part ''REVG'']"

definition text_only_response :: GenerateContentResponse where
  "text_only_response = response_with_parts [text_part ''no image today'']"

definition image_only_response :: GenerateContentResponse where
  "image_only_response = response_with_parts [image_part ''QUJD'']"

definition not_json_response :: GenerateContentResponse where
  "not_json_response = response_with_parts [text_part ''not json'']"

definition car_request :: SegmentationRequest where
  "car_request = \<lparr>image = ''T1JJRw=='', query = ''the red car''\<rparr>"

text \<open>
  A parse function for the examples: it agrees with \<^verbatim>\<open>JSON.parse\<close> on the two texts the
  examples use, the empty mask list and a text that is not JSON.
\<close>

definition empty_masks_text :: string where
  \<open>empty_masks_text = ''{"masks":[]}''\<close>

definition JSON_parse_example :: "string \<Rightarrow> jsval option" where
  "JSON_parse_example s = (if s = empty_masks_text then Some (JObj [(''masks'', JArr [])]) else None)"

definition masks_response :: GenerateContentResponse where
  "masks_response = response_with_parts [text_part empty_masks_text]"

definition image_then_text_response :: GenerateContentResponse where
  "image_then_text_response = response_with_parts [image_part ''QUJD'', text_part empty_masks_text]"

text \<open>Caught errors: \<^verbatim>\<open>{error: {code: 429}}\<close>, \<^verbatim>\<open>{error: {error: {code: 429}}}\<close>,
  \<^verbatim>\<open>{error: {message: "quota exceeded"}}\<close>, \<^verbatim>\<open>{error: {message: "model overloaded"}}\<close>,
  \<^verbatim>\<open>{error: {error: {message: "bad key"}}}\<close>, \<^verbatim>\<open>{error: {message: 5}}\<close>,
  \<^verbatim>\<open>{error: {error: {message: {toString: 5}}}}\<close> and \<^verbatim>\<open>{message: "fetch failed"}\<close>.\<close>

definition rate_limited_error :: jsval where
  "rate_limited_error = JObj [(''error'', JObj [(''code'', JNum (Finite 429))])]"

definition nested_rate_limited_error :: jsval where
  "nested_rate_limited_error = JObj [(''error'', JObj [(''error'', JObj [(''code'', JNum (Finite 429))])])]"

definition quota_error :: jsval where
  "quota_error = JObj [(''error'', JObj [(''message'', JStr ''quota exceeded'')])]"

definition overloaded_error :: jsval where
  "overloaded_error = JObj [(''error'', JObj [(''message'', JStr ''model overloaded'')])]"

definition bad_key_error :: jsval where
  "bad_key_error = JObj [(''error'', JObj [(''error'', JObj [(''message'', JStr ''bad key'')])])]"

definition numeric_message_error :: jsval where
  "numeric_message_error = JObj [(''error'', JObj [(''message'', JNum (Finite 5))])]"

definition unprintable_message_error :: jsval where
  "unprintable_message_error =
     JObj [(''error'', JObj [(''error'', JObj [(''message'', JObj [(''toString'', JNum (Finite 5))])])])]"

definition fetch_error :: jsval where
  "fetch_error = JObj [(''message'', JStr ''fetch failed'')]"

text \<open>The generation request again, with both sampling controls set.\<close>

definition seeded_sunset_request :: GenerationRequest where
  "seeded_sunset_request =
     sunset_request\<lparr>GenerationRequest.temperature := Some (Finite 0.7), GenerationRequest.seed := Some (Finite 42)\<rparr>"

text \<open>The edit request without its mask, and that one with both sampling controls set.\<close>

definition unmasked_request :: EditRequest where
  "unmasked_request = sky_request\<lparr>maskImage := None\<rparr>"

definition seeded_unmasked_request :: EditRequest where
  "seeded_unmasked_request = unmasked_request\<lparr>temperature := Some (Finite 0.2), seed := Some (Finite 7)\<rparr>"

section \<open>Helper lemmas\<close>

lemma String_includes_sublist: "String_includes s sub \<longleftrightarrow> sublist sub s"
  by (induction s) (simp_all add: sublist_Cons_right)

lemma foldl_push_reference:
  "foldl (\<lambda>acc img. acc @ [InlineData ''image/png'' img]) elems images =
     elems @ map (InlineData ''image/png'') images"
  by (induction images arbitrary: elems) simp_all

lemma push_reference_images_eq:
  "push_reference_images refs elems = elems @ map (InlineData ''image/png'') (reference_list refs)"
  by (cases refs) (simp_all add: push_reference_images_def reference_list_def foldl_push_reference)

lemma push_mask_eq:
  "push_mask m elems =
     elems @ (case m of None \<Rightarrow> [] | Some d \<Rightarrow> if d = [] then [] else [InlineData ''image/png'' d])"
  by (cases m) (simp_all add: push_mask_def)

lemma push_image_eq: "push_image images p = images @ List.map_filter image_data [p]"
proof (cases "inlineData p")
  case None
  then show ?thesis by (simp add: push_image_def image_data_def)
next
  case (Some b)
  then show ?thesis by (cases "blob_data b") (simp_all add: push_image_def image_data_def)
qed

lemma foldl_push_image:
  "foldl push_image images ps = images @ List.map_filter image_data ps"
proof (induction ps arbitrary: images)
  case Nil
  show ?case by simp
next
  case (Cons p ps)
  have "foldl push_image images (p # ps) = push_image images p @ List.map_filter image_data ps"
    by (simp add: Cons.IH)
  also have "\<dots> = images @ List.map_filter image_data (p # ps)"
    by (simp add: push_image_eq split: option.splits)
  finally show ?case .
qed

lemma response_parts_eq:
  "(case response_parts response of Some ps \<Rightarrow> ps | None \<Rightarrow> []) = first_candidate_parts response"
proof (cases "candidates response")
  case None
  then show ?thesis by (simp add: response_parts_def first_candidate_parts_def)
next
  case (Some cs)
  show ?thesis
  proof (cases cs)
    case Nil
    with Some show ?thesis
      by (simp add: response_parts_def first_candidate_parts_def first_element_def)
  next
    case (Cons c cs')
    with Some show ?thesis
      by (cases "content c")
         (simp_all add: response_parts_def first_candidate_parts_def first_element_def
            split: option.splits)
  qed
qed

lemma collect_images_eq: "collect_images response = inline_image_data response"
proof (cases "response_parts response")
  case None
  with response_parts_eq [of response] show ?thesis
    by (simp add: collect_images_def inline_image_data_def)
next
  case (Some ps)
  with response_parts_eq [of response] show ?thesis
    by (simp add: collect_images_def inline_image_data_def foldl_push_image)
qed

lemma no_image_data: "(\<forall>p \<in> set ps. image_data p = None) \<Longrightarrow> List.map_filter image_data ps = []"
  by (induction ps) simp_all

lemma text_includes_call:
  "text_includes v sub \<Longrightarrow> sub \<noteq> [] \<Longrightarrow> truthy v \<and> call_includes v sub = Inr True"
  by (cases v) auto

lemma text_or_absent_call:
  "text_or_absent v \<Longrightarrow> truthy v \<Longrightarrow> call_includes v sub = Inr (text_includes v sub)"
  by (cases v) auto

lemma text_slot:
  "text_or_absent v \<Longrightarrow>
     (truthy v \<longrightarrow> (\<exists>m. message_text v = Some m \<and> ToString Number_toString v = Inr m)) \<and>
     (\<not> truthy v \<longrightarrow> message_text v = None)"
  by (cases v) auto

lemma responseText_eq:
  "responseText response = Option.bind (first_element (first_candidate_parts response)) part_text"
proof (cases "candidates response")
  case None
  then show ?thesis
    by (simp add: responseText_def response_parts_def first_candidate_parts_def first_element_def)
next
  case (Some cs)
  show ?thesis
  proof (cases cs)
    case Nil
    with Some show ?thesis
      by (simp add: responseText_def response_parts_def first_candidate_parts_def first_element_def)
  next
    case (Cons c cs')
    with Some show ?thesis
      by (cases "content c")
         (simp_all add: responseText_def response_parts_def first_candidate_parts_def
            first_element_def split: option.splits)
  qed
qed

lemma find_text_None:
  assumes "Option.bind (List.find (\<lambda>p. truthy_string (part_text p)) ps) part_text = None"
  shows "\<forall>p \<in> set ps. \<not> truthy_string (part_text p)"
proof (cases "List.find (\<lambda>p. truthy_string (part_text p)) ps")
  case None
  then show ?thesis by (simp add: find_None_iff)
next
  case (Some p)
  then have "truthy_string (part_text p)" by (auto simp: find_Some_iff)
  then have "part_text p \<noteq> None" by (cases "part_text p") (simp_all add: truthy_string_def)
  with assms Some show ?thesis by simp
qed

text \<open>A response with no text part at all has, in particular, no text in its first part.\<close>

lemma no_text_part_no_responseText:
  assumes "first_text_part response = None"
  shows "\<not> truthy_string (responseText response)"
proof (cases "first_candidate_parts response")
  case Nil
  then show ?thesis by (simp add: responseText_eq first_element_def truthy_string_def)
next
  case (Cons p ps)
  from assms have "\<forall>p \<in> set (first_candidate_parts response). \<not> truthy_string (part_text p)"
    unfolding first_text_part_def by (rule find_text_None)
  with Cons have "\<not> truthy_string (part_text p)" by simp
  with Cons show ?thesis by (simp add: responseText_eq first_element_def)
qed

text \<open>
  An occurrence of a list in \<open>H @ I @ B\<close> lies inside \<open>I\<close> when the list starts with an
  element \<open>H\<close> lacks, holds an element \<open>B\<close> lacks, and after that element never again
  holds the element \<open>B\<close> starts with.
\<close>

lemma sublist_between:
  assumes occ: "sublist (n # pre @ p # post) (H @ I @ B)"
    and nH: "n \<notin> set H" and pB: "p \<notin> set B" and npost: "n \<notin> set post"
    and B: "B = n # B'"
  shows "sublist (n # pre @ p # post) I"
proof -
  from occ obtain ps ss where eq: "H @ I @ B = ps @ (n # pre @ p # post) @ ss"
    by (auto simp: sublist_def)
  \<comment> \<open>the occurrence starts after \<open>H\<close>\<close>
  have "\<exists>us. I @ B = us @ (n # pre @ p # post) @ ss"
  proof -
    from append_eq_append_conv2 [THEN iffD1, OF eq]
    obtain vs where "H = ps @ vs \<and> vs @ I @ B = (n # pre @ p # post) @ ss \<or>
        H @ vs = ps \<and> I @ B = vs @ (n # pre @ p # post) @ ss" by blast
    then show ?thesis
    proof
      assume h: "H = ps @ vs \<and> vs @ I @ B = (n # pre @ p # post) @ ss"
      show ?thesis
      proof (cases vs)
        case Nil
        with h have "I @ B = [] @ (n # pre @ p # post) @ ss" by simp
        then show ?thesis by blast
      next
        case (Cons v vs')
        with h have "v = n" by simp
        with h Cons nH show ?thesis by simp
      qed
    next
      assume "H @ vs = ps \<and> I @ B = vs @ (n # pre @ p # post) @ ss"
      then show ?thesis by blast
    qed
  qed
  then obtain us where us: "I @ B = us @ (n # pre @ p # post) @ ss" by blast
  \<comment> \<open>the marked element lies in \<open>I\<close>\<close>
  from us have split: "I @ B = (us @ n # pre @ [p]) @ (post @ ss)" by simp
  have "\<exists>vs. I = (us @ n # pre @ [p]) @ vs \<and> vs @ B = post @ ss"
  proof -
    from append_eq_append_conv2 [THEN iffD1, OF split]
    obtain ws where "I = (us @ n # pre @ [p]) @ ws \<and> ws @ B = post @ ss \<or>
        I @ ws = us @ n # pre @ [p] \<and> B = ws @ post @ ss" by blast
    then show ?thesis
    proof
      assume "I = (us @ n # pre @ [p]) @ ws \<and> ws @ B = post @ ss"
      then show ?thesis by blast
    next
      assume h: "I @ ws = us @ n # pre @ [p] \<and> B = ws @ post @ ss"
      show ?thesis
      proof (cases ws rule: rev_cases)
        case Nil
        with h have "I = (us @ n # pre @ [p]) @ [] \<and> [] @ B = post @ ss" by simp
        then show ?thesis by blast
      next
        case (snoc ws' w)
        with h have "(I @ ws') @ [w] = (us @ n # pre) @ [p]" by simp
        then have "w = p" by (simp only: append1_eq_conv)
        with h snoc pB show ?thesis by simp
      qed
    qed
  qed
  then obtain vs where vs: "I = (us @ n # pre @ [p]) @ vs" "vs @ B = post @ ss" by blast
  \<comment> \<open>the rest of the occurrence ends before \<open>B\<close>\<close>
  have "\<exists>ws. vs = post @ ws"
  proof -
    from append_eq_append_conv2 [THEN iffD1, OF vs(2)]
    obtain xs where "vs = post @ xs \<and> xs @ B = ss \<or> vs @ xs = post \<and> B = xs @ ss" by blast
    then show ?thesis
    proof
      assume "vs = post @ xs \<and> xs @ B = ss"
      then show ?thesis by blast
    next
      assume h: "vs @ xs = post \<and> B = xs @ ss"
      show ?thesis
      proof (cases xs)
        case Nil
        with h show ?thesis by simp
      next
        case (Cons x xs')
        with h B have "x = n" by simp
        with h Cons npost show ?thesis by auto
      qed
    qed
  qed
  then obtain ws where "vs = post @ ws" by blast
  with vs(1) have "I = us @ (n # pre @ p # post) @ ws" by simp
  then show ?thesis unfolding sublist_def by blast
qed


lemma mask_clause_split:
  "mask_clause =
     CHR ''\<newline>'' #
       ''\<newline>IMPORTANT: Apply changes ONLY where the mask image shows white pixels '' @
       CHR ''('' #
       ''value 255). Leave all other areas completely unchanged. Respect the mask boundaries precisely and maintain seamless blending at the edges.''"
  by (simp add: mask_clause_def)

lemma newline_not_in_head: "CHR ''\<newline>'' \<notin> set edit_prompt_head"
  by (simp add: edit_prompt_head_def)

lemma paren_not_in_framing: "CHR ''('' \<notin> set (edit_prompt_body @ edit_prompt_tail)"
  by (simp add: edit_prompt_body_def edit_prompt_tail_def)

lemma framing_starts_with_newline:
  "edit_prompt_body @ edit_prompt_tail = CHR ''\<newline>'' # tl (edit_prompt_body @ edit_prompt_tail)"
  by (simp add: edit_prompt_body_def)

lemma clause_only_from_instruction:
  assumes "sublist mask_clause (edit_prompt_head @ instr @ edit_prompt_body @ edit_prompt_tail)"
  shows "sublist mask_clause instr"
  unfolding mask_clause_split
proof (rule sublist_between)
  show "sublist
     (CHR ''\<newline>'' #
       ''\<newline>IMPORTANT: Apply changes ONLY where the mask image shows white pixels '' @
       CHR ''('' #
       ''value 255). Leave all other areas completely unchanged. Respect the mask boundaries precisely and maintain seamless blending at the edges.'')
     (edit_prompt_head @ instr @ edit_prompt_body @ edit_prompt_tail)"
    using assms unfolding mask_clause_split .
  show "CHR ''\<newline>'' \<notin> set edit_prompt_head" by (rule newline_not_in_head)
  show "CHR ''('' \<notin> set (edit_prompt_body @ edit_prompt_tail)" by (rule paren_not_in_framing)
  show "CHR ''\<newline>'' \<notin> set ''value 255). Leave all other areas completely unchanged. Respect the mask boundaries precisely and maintain seamless blending at the edges.''"
    by simp
  show "edit_prompt_body @ edit_prompt_tail = CHR ''\<newline>'' # tl (edit_prompt_body @ edit_prompt_tail)"
    by (rule framing_starts_with_newline)
qed

section \<open>The claims\<close>

text \<open>
  C1. Whatever response the provider returns, \<^verbatim>\<open>generateImage\<close> and \<^verbatim>\<open>editImage\<close> return,
  without an error, exactly the inline image data of the content parts of the first
  candidate, in part order; a part carries image data when its payload is supplied and
  not empty, which is the test of the loop. When no part carries any, the result is the
  empty sequence.
\<close>

theorem images_in_part_order:
  assumes "generateContent (generateImage_params grequest) = Inr response"
    and "generateContent' (editImage_params erequest) = Inr response"
  shows "generateImage generateContent Number_toString grequest = Inr (inline_image_data response) \<and>
         editImage generateContent' erequest = Inr (inline_image_data response) \<and>
         ((\<forall>p \<in> set (first_candidate_parts response). image_data p = None) \<longrightarrow>
            generateImage generateContent Number_toString grequest = Inr [] \<and>
            editImage generateContent' erequest = Inr [])"
  using assms
  by (simp add: generateImage_def editImage_def collect_images_eq)
     (simp add: inline_image_data_def no_image_data)

text \<open>
  The parts \<^verbatim>\<open>[textPart, imagePartA, imagePartB]\<close> yield the two payloads in that order,
  and a response with a text part only yields the empty sequence.
\<close>

theorem images_in_part_order_witness:
  "\<forall>Number_toString.
     generateImage (provider_returning three_part_response) Number_toString sunset_request =
       Inr [''QUJD'', ''REVG''] \<and>
     editImage (provider_returning three_part_response) sky_request = Inr [''QUJD'', ''REVG''] \<and>
     generateImage (provider_returning text_only_response) Number_toString sunset_request = Inr [] \<and>
     editImage (provider_returning text_only_response) sky_request = Inr []"
proof
  fix Number_toString
  have three: "inline_image_data three_part_response = [''QUJD'', ''REVG'']"
    by (simp add: inline_image_data_def first_candidate_parts_def image_data_def
          three_part_response_def response_with_parts_def text_part_def image_part_def)
  have none: "\<forall>p \<in> set (first_candidate_parts text_only_response). image_data p = None"
    by (simp add: first_candidate_parts_def image_data_def text_only_response_def
          response_with_parts_def text_part_def)
  have a: "provider_returning three_part_response (generateImage_params sunset_request) =
      Inr three_part_response"
    and b: "provider_returning three_part_response (editImage_params sky_request) =
      Inr three_part_response"
    and c: "provider_returning text_only_response (generateImage_params sunset_request) =
      Inr text_only_response"
    and d: "provider_returning text_only_response (editImage_params sky_request) =
      Inr text_only_response"
    by (simp_all add: provider_returning_def)
  from images_in_part_order
         [where generateContent = "provider_returning three_part_response"
            and generateContent' = "provider_returning three_part_response"
            and Number_toString = Number_toString, OF a b]
  have 1: "generateImage (provider_returning three_part_response) Number_toString sunset_request =
        Inr [''QUJD'', ''REVG'']"
    and 2: "editImage (provider_returning three_part_response) sky_request = Inr [''QUJD'', ''REVG'']"
    by (simp_all only: three)
  from images_in_part_order
         [where generateContent = "provider_returning text_only_response"
            and generateContent' = "provider_returning text_only_response"
            and Number_toString = Number_toString, OF c d]
       none
  have 3: "generateImage (provider_returning text_only_response) Number_toString sunset_request = Inr [] \<and>
     editImage (provider_returning text_only_response) sky_request = Inr []"
    by blast
  from 1 2 3
  show "generateImage (provider_returning three_part_response) Number_toString sunset_request =
       Inr [''QUJD'', ''REVG''] \<and>
     editImage (provider_returning three_part_response) sky_request = Inr [''QUJD'', ''REVG''] \<and>
     generateImage (provider_returning text_only_response) Number_toString sunset_request = Inr [] \<and>
     editImage (provider_returning text_only_response) sky_request = Inr []"
    by blast
qed

text \<open>
  C2. For a generation request with N reference images the content list is the prompt
  text followed by exactly N inline image elements in input order. For an edit request
  it is the edit prompt, the original image, each reference image in order, and last the
  mask image if one is present (supplied and not empty, the test of the code).
\<close>

theorem content_list_order:
  "generateImage_contents grequest =
     Text (prompt grequest) #
       map (InlineData ''image/png'') (reference_list (GenerationRequest.referenceImages grequest)) \<and>
   length (generateImage_contents grequest) =
     1 + length (reference_list (GenerationRequest.referenceImages grequest)) \<and>
   editImage_contents erequest =
     Text (buildEditPrompt erequest) # InlineData ''image/png'' (originalImage erequest) #
       map (InlineData ''image/png'') (reference_list (referenceImages erequest)) @
       (case maskImage erequest of
          None \<Rightarrow> []
        | Some m \<Rightarrow> if m = [] then [] else [InlineData ''image/png'' m])"
  by (simp add: generateImage_contents_def editImage_contents_def push_reference_images_eq
        push_mask_eq)

theorem content_list_order_witness:
  "generateImage_contents sunset_request =
     [Text ''a sunset'', InlineData ''image/png'' ''QUJD'', InlineData ''image/png'' ''REVG''] \<and>
   editImage_contents sky_request =
     [Text (buildEditPrompt sky_request), InlineData ''image/png'' ''T1JJRw=='',
      InlineData ''image/png'' ''QUJD'', InlineData ''image/png'' ''TUFTSw=='']"
  using content_list_order [of sunset_request sky_request]
  by (simp add: sunset_request_def sky_request_def reference_list_def)

text \<open>
  C3. When the error caught by \<^verbatim>\<open>generateImage\<close> carries code 429 at \<^verbatim>\<open>error.error.code\<close>,
  \<^verbatim>\<open>error.error.error.code\<close> or \<^verbatim>\<open>error.code\<close>, or its \<^verbatim>\<open>error.error.message\<close> is a text that
  contains \<^verbatim>\<open>quota\<close>, the error that leaves is RateLimitExceeded, whatever else the error
  holds.
\<close>

theorem rate_limit_first:
  assumes "generateContent (generateImage_params request) = Inl error"
    and "rate_limit_case error"
  shows "generateImage generateContent Number_toString request = Inl RateLimitExceeded"
proof (cases "carries_429 error")
  case True
  with assms(1) show ?thesis
    by (simp add: generateImage_def generateImage_catch_def carries_429_def RateLimitExceeded_def)
next
  case False
  with assms(2) have "text_includes (optProp (optProp error ''error'') ''message'') ''quota''"
    by (simp add: rate_limit_case_def)
  then have "truthy (optProp (optProp error ''error'') ''message'') \<and>
      call_includes (optProp (optProp error ''error'') ''message'') ''quota'' = Inr True"
    by (rule text_includes_call) simp
  with False assms(1) show ?thesis
    by (simp add: generateImage_def generateImage_catch_def carries_429_def RateLimitExceeded_def)
qed

theorem rate_limit_first_witness:
  "\<forall>Number_toString.
     generateImage (provider_throwing rate_limited_error) Number_toString sunset_request =
       Inl RateLimitExceeded \<and>
     generateImage (provider_throwing nested_rate_limited_error) Number_toString sunset_request =
       Inl RateLimitExceeded \<and>
     generateImage (provider_throwing quota_error) Number_toString sunset_request =
       Inl RateLimitExceeded"
proof
  fix Number_toString
  have a: "rate_limit_case rate_limited_error"
    by (simp add: rate_limit_case_def carries_429_def rate_limited_error_def)
  have b: "rate_limit_case nested_rate_limited_error"
    by (simp add: rate_limit_case_def carries_429_def nested_rate_limited_error_def)
  have c: "rate_limit_case quota_error"
    by (simp add: rate_limit_case_def carries_429_def quota_error_def)
  have thrown: "\<And>e. provider_throwing e (generateImage_params sunset_request) = Inl e"
    by (simp add: provider_throwing_def)
  from rate_limit_first
         [where generateContent = "provider_throwing rate_limited_error"
            and Number_toString = Number_toString, OF thrown a]
       rate_limit_first
         [where generateContent = "provider_throwing nested_rate_limited_error"
            and Number_toString = Number_toString, OF thrown b]
       rate_limit_first
         [where generateContent = "provider_throwing quota_error"
            and Number_toString = Number_toString, OF thrown c]
  show "generateImage (provider_throwing rate_limited_error) Number_toString sunset_request =
       Inl RateLimitExceeded \<and>
     generateImage (provider_throwing nested_rate_limited_error) Number_toString sunset_request =
       Inl RateLimitExceeded \<and>
     generateImage (provider_throwing quota_error) Number_toString sunset_request =
       Inl RateLimitExceeded"
    by simp
qed

text \<open>
  C4. When the error caught by \<^verbatim>\<open>generateImage\<close> is not a rate-limit case, the error that
  leaves should follow the priority order: ApiError wrapping a nested provider message,
  else GenericError wrapping a generic message, else UnknownError. The catch block does
  not keep to it on two caught errors that are no rate-limit case. On
  \<^verbatim>\<open>{error: {message: 5}}\<close> the rate-limit test calls \<^verbatim>\<open>includes\<close> on a number, and on
  \<^verbatim>\<open>{error: {error: {message: {toString: 5}}}}\<close> the template literal cannot render the
  object: each time a TypeError leaves, which is none of the three.
\<close>

theorem error_priority_failing_inputs:
  "\<not> rate_limit_case numeric_message_error \<and>
   \<not> rate_limit_case unprintable_message_error \<and>
   (\<forall>Number_toString.
      generateImage (provider_throwing numeric_message_error) Number_toString sunset_request =
        Inl TypeError \<and>
      generateImage (provider_throwing unprintable_message_error) Number_toString sunset_request =
        Inl TypeError)"
  by (simp add: rate_limit_case_def carries_429_def numeric_message_error_def
        unprintable_message_error_def generateImage_def generateImage_catch_def
        provider_throwing_def throw_new_Error_def)

text \<open>
  Beyond the claims: the priority order holds wherever the three message slots hold a text
  or nothing. For every error caught by \<^verbatim>\<open>generateImage\<close> that is not a rate-limit case
  and whose \<^verbatim>\<open>error.error.message\<close>, \<^verbatim>\<open>error.error.error.message\<close> and \<^verbatim>\<open>error.message\<close> are
  each a text or falsy, a nested provider message gives ApiError wrapping it, the first
  place before the second; else a generic message gives GenericError wrapping it; else
  UnknownError leaves with its fixed message.
\<close>

theorem error_priority_order:
  assumes "generateContent (generateImage_params request) = Inl error"
    and "\<not> rate_limit_case error"
    and "text_or_absent (optProp (optProp error ''error'') ''message'')"
    and "text_or_absent (optProp (optProp (optProp error ''error'') ''error'') ''message'')"
    and "text_or_absent (optProp error ''message'')"
  shows "generateImage generateContent Number_toString request =
     Inl (case nested_provider_message error of
            Some m \<Rightarrow> ApiError m
          | None \<Rightarrow>
              (case generic_message error of
                 Some m \<Rightarrow> GenericError m
               | None \<Rightarrow> UnknownError))"
proof -
  from assms(2) have no429: "\<not> carries_429 error"
    and noquota: "\<not> text_includes (optProp (optProp error ''error'') ''message'') ''quota''"
    by (simp_all add: rate_limit_case_def)
  have call: "(if truthy (optProp (optProp error ''error'') ''message'')
        then call_includes (optProp (optProp error ''error'') ''message'') ''quota''
        else Inr False) = Inr False"
    using text_or_absent_call [OF assms(3)] noquota by simp
  have catch: "generateImage_catch Number_toString error =
      (if truthy (optProp (optProp error ''error'') ''message'')
       then throw_new_Error ''API Error: ''
              (ToString Number_toString (optProp (optProp error ''error'') ''message''))
       else if truthy (optProp (optProp (optProp error ''error'') ''error'') ''message'')
       then throw_new_Error ''API Error: ''
              (ToString Number_toString (optProp (optProp (optProp error ''error'') ''error'') ''message''))
       else if truthy (optProp error ''message'')
       then throw_new_Error ''Error: '' (ToString Number_toString (optProp error ''message''))
       else Error ''Failed to generate image. Please try again.'')"
    unfolding generateImage_catch_def call using no429 by (simp add: carries_429_def)
  from text_slot [OF assms(3), of Number_toString] text_slot [OF assms(4), of Number_toString]
    text_slot [OF assms(5), of Number_toString]
  have "generateImage_catch Number_toString error =
      (case nested_provider_message error of
         Some m \<Rightarrow> ApiError m
       | None \<Rightarrow>
           (case generic_message error of
              Some m \<Rightarrow> GenericError m
            | None \<Rightarrow> UnknownError))"
    unfolding catch
    by (auto simp: nested_provider_message_def generic_message_def throw_new_Error_def
          ApiError_def GenericError_def UnknownError_def)
  with assms(1) show ?thesis by (simp add: generateImage_def)
qed

theorem error_priority_order_witness:
  "\<forall>Number_toString.
     generateImage (provider_throwing overloaded_error) Number_toString sunset_request =
       Inl (ApiError ''model overloaded'') \<and>
     generateImage (provider_throwing bad_key_error) Number_toString sunset_request =
       Inl (ApiError ''bad key'') \<and>
     generateImage (provider_throwing fetch_error) Number_toString sunset_request =
       Inl (GenericError ''fetch failed'') \<and>
     generateImage (provider_throwing JNull) Number_toString sunset_request = Inl UnknownError"
proof
  fix Number_toString
  have thrown: "\<And>e. provider_throwing e (generateImage_params sunset_request) = Inl e"
    by (simp add: provider_throwing_def)
  have a: "\<not> rate_limit_case overloaded_error"
    "text_or_absent (optProp (optProp overloaded_error ''error'') ''message'')"
    "text_or_absent (optProp (optProp (optProp overloaded_error ''error'') ''error'') ''message'')"
    "text_or_absent (optProp overloaded_error ''message'')"
    by (simp_all add: rate_limit_case_def carries_429_def overloaded_error_def)
  have b: "\<not> rate_limit_case bad_key_error"
    "text_or_absent (optProp (optProp bad_key_error ''error'') ''message'')"
    "text_or_absent (optProp (optProp (optProp bad_key_error ''error'') ''error'') ''message'')"
    "text_or_absent (optProp bad_key_error ''message'')"
    by (simp_all add: rate_limit_case_def carries_429_def bad_key_error_def)
  have c: "\<not> rate_limit_case fetch_error"
    "text_or_absent (optProp (optProp fetch_error ''error'') ''message'')"
    "text_or_absent (optProp (optProp (optProp fetch_error ''error'') ''error'') ''message'')"
    "text_or_absent (optProp fetch_error ''message'')"
    by (simp_all add: rate_limit_case_def carries_429_def fetch_error_def)
  have d: "\<not> rate_limit_case JNull"
    "text_or_absent (optProp (optProp JNull ''error'') ''message'')"
    "text_or_absent (optProp (optProp (optProp JNull ''error'') ''error'') ''message'')"
    "text_or_absent (optProp JNull ''message'')"
    by (simp_all add: rate_limit_case_def carries_429_def)
  from error_priority_order
         [where generateContent = "provider_throwing overloaded_error"
            and Number_toString = Number_toString, OF thrown a]
  have 1: "generateImage (provider_throwing overloaded_error) Number_toString sunset_request =
       Inl (ApiError ''model overloaded'')"
    by (simp add: nested_provider_message_def overloaded_error_def)
  from error_priority_order
         [where generateContent = "provider_throwing bad_key_error"
            and Number_toString = Number_toString, OF thrown b]
  have 2: "generateImage (provider_throwing bad_key_error) Number_toString sunset_request =
       Inl (ApiError ''bad key'')"
    by (simp add: nested_provider_message_def bad_key_error_def)
  from error_priority_order
         [where generateContent = "provider_throwing fetch_error"
            and Number_toString = Number_toString, OF thrown c]
  have 3: "generateImage (provider_throwing fetch_error) Number_toString sunset_request =
       Inl (GenericError ''fetch failed'')"
    by (simp add: nested_provider_message_def generic_message_def fetch_error_def)
  from error_priority_order
         [where generateContent = "provider_throwing JNull"
            and Number_toString = Number_toString, OF thrown d]
  have 4: "generateImage (provider_throwing JNull) Number_toString sunset_request = Inl UnknownError"
    by (simp add: nested_provider_message_def generic_message_def)
  from 1 2 3 4
  show "generateImage (provider_throwing overloaded_error) Number_toString sunset_request =
       Inl (ApiError ''model overloaded'') \<and>
     generateImage (provider_throwing bad_key_error) Number_toString sunset_request =
       Inl (ApiError ''bad key'') \<and>
     generateImage (provider_throwing fetch_error) Number_toString sunset_request =
       Inl (GenericError ''fetch failed'') \<and>
     generateImage (provider_throwing JNull) Number_toString sunset_request = Inl UnknownError"
    by simp
qed

text \<open>
  Beyond the claims: when no code 429 is found and \<^verbatim>\<open>error.error.message\<close> is truthy
  without being a string or an array (\<^verbatim>\<open>true\<close>, a number, an object), the rate-limit test
  calls a method the value does not have, and \<^verbatim>\<open>generateImage\<close> fails with the TypeError
  of its own catch block.
\<close>

theorem includes_call_raises:
  assumes "generateContent (generateImage_params request) = Inl error"
    and "\<not> carries_429 error"
    and "truthy (optProp (optProp error ''error'') ''message'')"
    and "\<not> has_includes (optProp (optProp error ''error'') ''message'')"
  shows "generateImage generateContent Number_toString request = Inl TypeError"
proof -
  from assms(4) have "call_includes (optProp (optProp error ''error'') ''message'') ''quota'' = Inl TypeError"
    by (cases "optProp (optProp error ''error'') ''message''") simp_all
  with assms(1,2,3) show ?thesis
    by (simp add: generateImage_def generateImage_catch_def carries_429_def)
qed

theorem includes_call_raises_witness:
  "\<forall>Number_toString.
     generateImage (provider_throwing numeric_message_error) Number_toString sunset_request =
       Inl TypeError"
proof
  fix Number_toString
  have thrown: "provider_throwing numeric_message_error (generateImage_params sunset_request) =
      Inl numeric_message_error"
    by (simp add: provider_throwing_def)
  have a: "\<not> carries_429 numeric_message_error"
    and b: "truthy (optProp (optProp numeric_message_error ''error'') ''message'')"
    and c: "\<not> has_includes (optProp (optProp numeric_message_error ''error'') ''message'')"
    by (simp_all add: carries_429_def numeric_message_error_def)
  from includes_call_raises
         [where generateContent = "provider_throwing numeric_message_error"
            and Number_toString = Number_toString, OF thrown a b c]
  show "generateImage (provider_throwing numeric_message_error) Number_toString sunset_request =
       Inl TypeError" .
qed

text \<open>
  C5, as amended. \<^verbatim>\<open>segmentImage\<close> reads the text of the first content part of the first
  response candidate, not the first part that is a text. Whenever that text is missing or
  empty, which includes every response without a text part, the try block raises
  NoResponseText and the call fails: no result is returned.
\<close>

theorem segment_missing_text:
  assumes "generateContent (segmentImage_params request) = Inr response"
    and "\<not> truthy_string (responseText response)"
  shows "segmentImage_try generateContent JSON_parse request = Inl (Raised NoResponseText) \<and>
         isl (segmentImage generateContent JSON_parse request)"
proof (cases "responseText response")
  case None
  with assms(1) show ?thesis
    by (simp add: segmentImage_def segmentImage_try_def NoResponseText_def)
next
  case (Some t)
  with assms(2) have "t = []" by (simp add: truthy_string_def)
  with Some assms(1) show ?thesis
    by (simp add: segmentImage_def segmentImage_try_def NoResponseText_def)
qed

theorem segment_missing_text_witness:
  "first_text_part image_only_response = None \<and>
   segmentImage_try (provider_returning image_only_response) JSON_parse_example car_request =
     Inl (Raised NoResponseText) \<and>
   isl (segmentImage (provider_returning image_only_response) JSON_parse_example car_request)"
proof -
  have none: "first_text_part image_only_response = None"
    by (simp add: first_text_part_def first_candidate_parts_def image_only_response_def
          response_with_parts_def image_part_def truthy_string_def)
  have returned: "provider_returning image_only_response (segmentImage_params car_request) =
      Inr image_only_response"
    by (simp add: provider_returning_def)
  from segment_missing_text
         [where generateContent = "provider_returning image_only_response"
            and JSON_parse = JSON_parse_example,
          OF returned no_text_part_no_responseText [OF none]]
       none
  show ?thesis by simp
qed

text \<open>
  The claim as stated fails on a response without any text part: the error that reaches
  the caller is the fixed one of the catch block, not NoResponseText. It fails also on a
  response whose text part comes second: there is a first text part, and the try block
  finds no response text.
\<close>

theorem segment_missing_text_counterexample:
  "first_text_part image_only_response = None \<and>
   segmentImage (provider_returning image_only_response) JSON_parse_example car_request =
     Inl (Error ''Failed to segment image. Please try again.'') \<and>
   segmentImage (provider_returning image_only_response) JSON_parse_example car_request \<noteq>
     Inl NoResponseText \<and>
   first_text_part image_then_text_response = Some empty_masks_text \<and>
   segmentImage_try (provider_returning image_then_text_response) JSON_parse_example car_request =
     Inl (Raised NoResponseText)"
  by (simp add: first_text_part_def first_candidate_parts_def image_only_response_def
        image_then_text_response_def response_with_parts_def image_part_def text_part_def
        truthy_string_def segmentImage_def segmentImage_try_def provider_returning_def
        responseText_def response_parts_def first_element_def NoResponseText_def
        empty_masks_text_def)

text \<open>
  C6, as amended. When the response text is not valid JSON, the SyntaxError of
  \<^verbatim>\<open>JSON.parse\<close> is raised inside the try block and caught there; \<^verbatim>\<open>segmentImage\<close> fails
  with the fixed error of its catch block, and the parse error does not reach the caller.
\<close>

theorem segment_invalid_json:
  assumes "generateContent (segmentImage_params request) = Inr response"
    and "responseText response = Some t"
    and "t \<noteq> []"
    and "JSON_parse t = None"
  shows "segmentImage_try generateContent JSON_parse request = Inl (Raised SyntaxError) \<and>
         segmentImage generateContent JSON_parse request =
           Inl (Error ''Failed to segment image. Please try again.'')"
  using assms by (simp add: segmentImage_def segmentImage_try_def)

theorem segment_invalid_json_witness:
  "segmentImage_try (provider_returning not_json_response) JSON_parse_example car_request =
     Inl (Raised SyntaxError) \<and>
   segmentImage (provider_returning not_json_response) JSON_parse_example car_request =
     Inl (Error ''Failed to segment image. Please try again.'')"
proof -
  have returned: "provider_returning not_json_response (segmentImage_params car_request) =
      Inr not_json_response"
    by (simp add: provider_returning_def)
  have first_text: "responseText not_json_response = Some ''not json''"
    by (simp add: responseText_def response_parts_def first_element_def not_json_response_def
          response_with_parts_def text_part_def)
  have nonempty: "''not json'' \<noteq> []" by simp
  have invalid: "JSON_parse_example ''not json'' = None"
    by (simp add: JSON_parse_example_def empty_masks_text_def)
  from segment_invalid_json
         [where generateContent = "provider_returning not_json_response"
            and JSON_parse = JSON_parse_example, OF returned first_text nonempty invalid]
  show ?thesis .
qed

text \<open>The claim as stated fails there: what the caller receives is not the parse error.\<close>

theorem segment_invalid_json_counterexample:
  "responseText not_json_response = Some ''not json'' \<and>
   JSON_parse_example ''not json'' = None \<and>
   segmentImage (provider_returning not_json_response) JSON_parse_example car_request \<noteq>
     Inl SyntaxError"
  by (simp add: responseText_def response_parts_def first_element_def not_json_response_def
        response_with_parts_def text_part_def JSON_parse_example_def empty_masks_text_def
        segmentImage_def segmentImage_try_def provider_returning_def)

text \<open>
  C7, as amended. The priority rules are applied by \<^verbatim>\<open>generateImage\<close> only. Whatever
  error the remote call throws, \<^verbatim>\<open>editImage\<close> fails with its fixed error and
  \<^verbatim>\<open>segmentImage\<close> with its own, so the caller never observes the shape of the provider's
  error, and never a RateLimitExceeded either.
\<close>

theorem edit_and_segment_fixed_errors:
  "(generateContent (editImage_params erequest) = Inl error \<longrightarrow>
      editImage generateContent erequest = Inl (Error ''Failed to edit image. Please try again.'')) \<and>
   (generateContent (segmentImage_params srequest) = Inl error \<longrightarrow>
      segmentImage generateContent JSON_parse srequest =
        Inl (Error ''Failed to segment image. Please try again.''))"
  by (simp add: editImage_def segmentImage_def segmentImage_try_def)

theorem edit_and_segment_fixed_errors_witness:
  "editImage (provider_throwing quota_error) sky_request =
     Inl (Error ''Failed to edit image. Please try again.'') \<and>
   segmentImage (provider_throwing quota_error) JSON_parse_example car_request =
     Inl (Error ''Failed to segment image. Please try again.'')"
proof -
  have thrown: "provider_throwing quota_error (editImage_params sky_request) = Inl quota_error"
    "provider_throwing quota_error (segmentImage_params car_request) = Inl quota_error"
    by (simp_all add: provider_throwing_def)
  from edit_and_segment_fixed_errors
         [where generateContent = "provider_throwing quota_error" and error = quota_error
            and erequest = sky_request and srequest = car_request
            and JSON_parse = JSON_parse_example]
       thrown
  show ?thesis by blast
qed

text \<open>
  The claim as stated fails on the caught error \<^verbatim>\<open>{error: {code: 429}}\<close>: it is a
  rate-limit case, and \<^verbatim>\<open>editImage\<close> does not surface RateLimitExceeded.
\<close>

theorem edit_rate_limit_counterexample:
  "rate_limit_case rate_limited_error \<and>
   editImage (provider_throwing rate_limited_error) sky_request =
     Inl (Error ''Failed to edit image. Please try again.'') \<and>
   editImage (provider_throwing rate_limited_error) sky_request \<noteq> Inl RateLimitExceeded \<and>
   segmentImage (provider_throwing rate_limited_error) JSON_parse_example car_request \<noteq>
     Inl RateLimitExceeded"
  by (simp add: rate_limit_case_def carries_429_def rate_limited_error_def editImage_def
        segmentImage_def segmentImage_try_def provider_throwing_def RateLimitExceeded_def)

text \<open>
  C8, as amended. For every edit request whose instruction does not itself contain the
  mask-handling clause, the prompt built by \<^verbatim>\<open>editImage\<close> contains the clause if and only
  if a mask image is present (supplied and not empty).
\<close>

theorem mask_clause_iff_mask:
  assumes "\<not> String_includes (instruction request) mask_clause"
  shows "String_includes (buildEditPrompt request) mask_clause \<longleftrightarrow> truthy_string (maskImage request)"
proof (cases "truthy_string (maskImage request)")
  case True
  then have "buildEditPrompt request =
      (edit_prompt_head @ instruction request @ edit_prompt_body) @ mask_clause @ edit_prompt_tail"
    by (simp add: buildEditPrompt_def)
  then have "sublist mask_clause (buildEditPrompt request)"
    by (simp only: sublist_appendI)
  with True show ?thesis by (simp add: String_includes_sublist)
next
  case False
  then have "buildEditPrompt request =
      edit_prompt_head @ instruction request @ edit_prompt_body @ edit_prompt_tail"
    by (simp add: buildEditPrompt_def)
  with clause_only_from_instruction [of "instruction request"] assms
  have "\<not> sublist mask_clause (buildEditPrompt request)"
    by (auto simp: String_includes_sublist)
  with False show ?thesis by (simp add: String_includes_sublist)
qed

theorem mask_clause_iff_mask_witness:
  "\<not> String_includes (instruction sky_request) mask_clause \<and>
   truthy_string (maskImage sky_request) \<and>
   String_includes (buildEditPrompt sky_request) mask_clause \<and>
   \<not> String_includes (instruction seeded_unmasked_request) mask_clause \<and>
   \<not> truthy_string (maskImage seeded_unmasked_request) \<and>
   \<not> String_includes (buildEditPrompt seeded_unmasked_request) mask_clause"
proof -
  have h: "\<not> String_includes (instruction sky_request) mask_clause"
    by (simp add: sky_request_def mask_clause_def)
  have m: "truthy_string (maskImage sky_request)"
    by (simp add: sky_request_def truthy_string_def)
  have h': "\<not> String_includes (instruction seeded_unmasked_request) mask_clause"
    by (simp add: seeded_unmasked_request_def unmasked_request_def sky_request_def mask_clause_def)
  have m': "\<not> truthy_string (maskImage seeded_unmasked_request)"
    by (simp add: seeded_unmasked_request_def unmasked_request_def sky_request_def truthy_string_def)
  from mask_clause_iff_mask [OF h] mask_clause_iff_mask [OF h'] h m h' m'
  show ?thesis by blast
qed

text \<open>
  The claim as stated fails on a request without a mask whose instruction quotes the
  clause: the prompt contains the clause.
\<close>

theorem quoted_clause_counterexample:
  "maskImage quoting_request = None \<and>
   String_includes (buildEditPrompt quoting_request) mask_clause"
proof -
  have "buildEditPrompt quoting_request =
      (edit_prompt_head @ ''repeat this: '') @ mask_clause @ (edit_prompt_body @ edit_prompt_tail)"
    by (simp add: buildEditPrompt_def quoting_request_def truthy_string_def)
  then have "sublist mask_clause (buildEditPrompt quoting_request)"
    by (simp only: sublist_appendI)
  then show ?thesis by (simp add: String_includes_sublist quoting_request_def)
qed

text \<open>
  C9, as amended. For every response whose first content part carries a text that
  \<^verbatim>\<open>JSON.parse\<close> accepts, \<^verbatim>\<open>segmentImage\<close> returns the parsed value unchanged, whatever its
  type and shape: nothing is validated beyond the success of the parse. The text
  \<^verbatim>\<open>{"masks":[]}\<close> in the first part yields the value it parses to.
\<close>

theorem segment_passes_json_through:
  assumes "generateContent (segmentImage_params request) = Inr response"
    and "responseText response = Some t"
    and "t \<noteq> []"
    and "JSON_parse t = Some v"
  shows "segmentImage generateContent JSON_parse request = Inr v"
  using assms by (simp add: segmentImage_def segmentImage_try_def)

theorem segment_passes_json_through_witness:
  "segmentImage (provider_returning masks_response) JSON_parse_example car_request =
     Inr (JObj [(''masks'', JArr [])])"
proof -
  have returned: "provider_returning masks_response (segmentImage_params car_request) =
      Inr masks_response"
    by (simp add: provider_returning_def)
  have first_text: "responseText masks_response = Some empty_masks_text"
    by (simp add: responseText_def response_parts_def first_element_def masks_response_def
          response_with_parts_def text_part_def)
  have nonempty: "empty_masks_text \<noteq> []" by (simp add: empty_masks_text_def)
  have valid: "JSON_parse_example empty_masks_text = Some (JObj [(''masks'', JArr [])])"
    by (simp add: JSON_parse_example_def)
  from segment_passes_json_through
         [where generateContent = "provider_returning masks_response"
            and JSON_parse = JSON_parse_example, OF returned first_text nonempty valid]
  show ?thesis .
qed

text \<open>
  The claim as stated fails on a response whose first part is an image and whose second
  part is the text \<^verbatim>\<open>{"masks":[]}\<close>: the first text part parses, and the call fails.
\<close>

theorem image_before_text_counterexample:
  "first_text_part image_then_text_response = Some empty_masks_text \<and>
   JSON_parse_example empty_masks_text = Some (JObj [(''masks'', JArr [])]) \<and>
   segmentImage (provider_returning image_then_text_response) JSON_parse_example car_request =
     Inl (Error ''Failed to segment image. Please try again.'')"
  by (simp add: first_text_part_def first_candidate_parts_def image_then_text_response_def
        response_with_parts_def image_part_def text_part_def truthy_string_def
        empty_masks_text_def JSON_parse_example_def segmentImage_def segmentImage_try_def
        provider_returning_def responseText_def response_parts_def first_element_def)

text \<open>
  C10. The sampling controls are ignored. Two generation requests with the same prompt and
  reference images, and two edit requests with the same instruction, original image,
  reference images and mask, give the same provider payload whatever their temperature
  and seed; and the result of an operation is a function of that payload's outcome at
  the provider alone.
\<close>

theorem sampling_controls_ignored:
  "(prompt g1 = prompt g2 \<and>
    GenerationRequest.referenceImages g1 = GenerationRequest.referenceImages g2 \<longrightarrow>
      generateImage_params g1 = generateImage_params g2 \<and>
      (generateContent (generateImage_params g1) = generateContent' (generateImage_params g2) \<longrightarrow>
         generateImage generateContent Number_toString g1 =
         generateImage generateContent' Number_toString g2)) \<and>
   (instruction e1 = instruction e2 \<and> originalImage e1 = originalImage e2 \<and>
    referenceImages e1 = referenceImages e2 \<and> maskImage e1 = maskImage e2 \<longrightarrow>
      editImage_params e1 = editImage_params e2 \<and>
      (generateContent (editImage_params e1) = generateContent' (editImage_params e2) \<longrightarrow>
         editImage generateContent e1 = editImage generateContent' e2))"
  by (simp add: generateImage_def generateImage_params_def generateImage_contents_def
        editImage_def editImage_params_def editImage_contents_def buildEditPrompt_def)

theorem sampling_controls_ignored_witness:
  "\<forall>Number_toString.
     GenerationRequest.temperature seeded_sunset_request \<noteq> GenerationRequest.temperature sunset_request \<and>
     GenerationRequest.seed seeded_sunset_request \<noteq> GenerationRequest.seed sunset_request \<and>
     generateImage_params seeded_sunset_request = generateImage_params sunset_request \<and>
     generateImage (provider_returning three_part_response) Number_toString seeded_sunset_request =
       generateImage (provider_returning three_part_response) Number_toString sunset_request \<and>
     temperature seeded_unmasked_request \<noteq> temperature unmasked_request \<and>
     seed seeded_unmasked_request \<noteq> seed unmasked_request \<and>
     editImage_params seeded_unmasked_request = editImage_params unmasked_request \<and>
     editImage (provider_returning three_part_response) seeded_unmasked_request =
       editImage (provider_returning three_part_response) unmasked_request"
proof
  fix Number_toString
  have g: "prompt seeded_sunset_request = prompt sunset_request \<and>
      GenerationRequest.referenceImages seeded_sunset_request =
        GenerationRequest.referenceImages sunset_request"
    by (simp add: seeded_sunset_request_def)
  have e: "instruction seeded_unmasked_request = instruction unmasked_request \<and>
      originalImage seeded_unmasked_request = originalImage unmasked_request \<and>
      referenceImages seeded_unmasked_request = referenceImages unmasked_request \<and>
      maskImage seeded_unmasked_request = maskImage unmasked_request"
    by (simp add: seeded_unmasked_request_def)
  have differ: "GenerationRequest.temperature seeded_sunset_request \<noteq> GenerationRequest.temperature sunset_request"
    "GenerationRequest.seed seeded_sunset_request \<noteq> GenerationRequest.seed sunset_request"
    "temperature seeded_unmasked_request \<noteq> temperature unmasked_request"
    "seed seeded_unmasked_request \<noteq> seed unmasked_request"
    by (simp_all add: seeded_sunset_request_def sunset_request_def seeded_unmasked_request_def
          unmasked_request_def sky_request_def)
  have same: "\<And>p q. provider_returning three_part_response p = provider_returning three_part_response q"
    by (simp add: provider_returning_def)
  from sampling_controls_ignored
         [where generateContent = "provider_returning three_part_response"
            and generateContent' = "provider_returning three_part_response"
            and Number_toString = Number_toString
            and ?g1.0 = seeded_sunset_request and ?g2.0 = sunset_request
            and ?e1.0 = seeded_unmasked_request and ?e2.0 = unmasked_request]
       g e same
  have "generateImage_params seeded_sunset_request = generateImage_params sunset_request \<and>
     generateImage (provider_returning three_part_response) Number_toString seeded_sunset_request =
       generateImage (provider_returning three_part_response) Number_toString sunset_request \<and>
     editImage_params seeded_unmasked_request = editImage_params unmasked_request \<and>
     editImage (provider_returning three_part_response) seeded_unmasked_request =
       editImage (provider_returning three_part_response) unmasked_request"
    by blast
  with differ
  show "GenerationRequest.temperature seeded_sunset_request \<noteq> GenerationRequest.temperature sunset_request \<and>
     GenerationRequest.seed seeded_sunset_request \<noteq> GenerationRequest.seed sunset_request \<and>
     generateImage_params seeded_sunset_request = generateImage_params sunset_request \<and>
     generateImage (provider_returning three_part_response) Number_toString seeded_sunset_request =
       generateImage (provider_returning three_part_response) Number_toString sunset_request \<and>
     temperature seeded_unmasked_request \<noteq> temperature unmasked_request \<and>
     seed seeded_unmasked_request \<noteq> seed unmasked_request \<and>
     editImage_params seeded_unmasked_request = editImage_params unmasked_request \<and>
     editImage (provider_returning three_part_response) seeded_unmasked_request =
       editImage (provider_returning three_part_response) unmasked_request"
    by blast
qed

end
